theory Spec2Isabelle
  imports Complex_Main
begin

section \<open>Backend and device wrappers (torchdr/utils/wrappers.py)\<close>

subsection \<open>Tensors, arrays and Python values\<close>

text \<open>
  An element of a floating-point tensor or array is a finite real, an infinity or NaN.
  The wrappers never compute with the elements: they test them (\<open>isfinite\<close>,
  \<open>iscomplex\<close>) and convert them to \<open>float32\<close>, which rounds (\<open>float32_of_real\<close>
  below).
\<close>

datatype scalar = Fin real | PosInf | NegInf | NaN

datatype int_kind = UInt8 | Int8 | Int16 | Int32 | Int64

datatype float_kind = Float16 | BFloat16 | Float32 | Float64

datatype complex_kind = Complex64 | Complex128

datatype dtype = DBool | DInt int_kind | DFloat float_kind | DComplex complex_kind

text \<open>
  The storage of a tensor or an array carries its element type, so that an integer tensor
  cannot hold NaN and only a complex one has imaginary parts (a complex element is the
  pair of its real and imaginary part).
\<close>

datatype data =
    BoolData "bool list"
  | IntData int_kind "int list"
  | FloatData float_kind "scalar list"
  | ComplexData complex_kind "(scalar \<times> scalar) list"

datatype device = CPU | CUDA nat

record tensor =
  t_data :: data
  t_shape :: "nat list"
  t_device :: device
  t_contiguous :: bool
  t_requires_grad :: bool

record ndarray =
  a_data :: data
  a_shape :: "nat list"

text \<open>The exceptions the wrappers and the library calls they make can raise, with their message.\<close>

datatype exn =
    ValueError string
  | TypeError string
  | AttributeError string
  | RuntimeError string

text \<open>
  What a Python name can hold in this module: a tensor, a numpy array, a string, a
  \<open>torch.device\<close>, a tuple, or a generator (given by the values it yields).
\<close>

datatype pyval =
    VTensor tensor
  | VArray ndarray
  | VStr string
  | VDevice device
  | VTuple "pyval list"
  | VGen "pyval list"

text \<open>
  The input \<open>x\<close> of \<open>to_torch\<close>: a \<open>torch.Tensor\<close>, or anything else, which
  \<open>check_array\<close> reads as an array (given here as the array \<open>np.asarray\<close> makes of it).
\<close>

datatype input = Tensor tensor | ArrayLike ndarray

subsection \<open>The library calls the wrappers make\<close>

fun dtype_of :: "data \<Rightarrow> dtype" where
  "dtype_of (BoolData _) = DBool"
| "dtype_of (IntData k _) = DInt k"
| "dtype_of (FloatData k _) = DFloat k"
| "dtype_of (ComplexData k _) = DComplex k"

text \<open>\<open>dtype.is_floating_point\<close>: true of the real floating-point types only.\<close>

fun is_floating_point :: "dtype \<Rightarrow> bool" where
  "is_floating_point (DFloat _) = True"
| "is_floating_point _ = False"

text \<open>\<open>torch.is_complex\<close> looks at the element type, not at the values.\<close>

fun is_complex_data :: "data \<Rightarrow> bool" where
  "is_complex_data (ComplexData _ _) = True"
| "is_complex_data _ = False"

definition is_complex :: "tensor \<Rightarrow> bool" where
  "is_complex x = is_complex_data (t_data x)"

fun finite_scalar :: "scalar \<Rightarrow> bool" where
  "finite_scalar (Fin _) = True"
| "finite_scalar _ = False"

text \<open>
  \<open>torch.isfinite\<close> and \<open>np.isfinite\<close>, elementwise: booleans and integers are
  finite, a complex element is finite when both of its parts are.
\<close>

fun isfinite_data :: "data \<Rightarrow> bool list" where
  "isfinite_data (BoolData bs) = map (\<lambda>_. True) bs"
| "isfinite_data (IntData _ ns) = map (\<lambda>_. True) ns"
| "isfinite_data (FloatData _ xs) = map finite_scalar xs"
| "isfinite_data (ComplexData _ zs) = map (\<lambda>z. finite_scalar (fst z) \<and> finite_scalar (snd z)) zs"

definition isfinite :: "tensor \<Rightarrow> bool list" where
  "isfinite x = isfinite_data (t_data x)"

text \<open>\<open>np.iscomplex\<close>, elementwise: the imaginary part is not zero (all false on a real array).\<close>

fun iscomplex_data :: "data \<Rightarrow> bool list" where
  "iscomplex_data (ComplexData _ zs) = map (\<lambda>z. snd z \<noteq> Fin 0) zs"
| "iscomplex_data (BoolData bs) = map (\<lambda>_. False) bs"
| "iscomplex_data (IntData _ ns) = map (\<lambda>_. False) ns"
| "iscomplex_data (FloatData _ xs) = map (\<lambda>_. False) xs"

definition iscomplex :: "ndarray \<Rightarrow> bool list" where
  "iscomplex x = iscomplex_data (a_data x)"

text \<open>\<open>.all()\<close> and \<open>.any()\<close> of a boolean tensor or array.\<close>

definition all_true :: "bool list \<Rightarrow> bool" where
  "all_true bs = list_all (\<lambda>b. b) bs"

definition any_true :: "bool list \<Rightarrow> bool" where
  "any_true bs = list_ex (\<lambda>b. b) bs"

fun is_nan :: "scalar \<Rightarrow> bool" where
  "is_nan NaN = True"
| "is_nan _ = False"

fun contains_nan :: "data \<Rightarrow> bool" where
  "contains_nan (FloatData _ xs) = list_ex is_nan xs"
| "contains_nan (ComplexData _ zs) = list_ex (\<lambda>z. is_nan (fst z) \<or> is_nan (snd z)) zs"
| "contains_nan _ = False"

definition ndim :: "ndarray \<Rightarrow> nat" where
  "ndim x = length (a_shape x)"

text \<open>
  \<open>sklearn.utils.validation.check_array(x, accept_sparse=False)\<close> on a dense array, with
  the defaults of its other parameters (\<open>dtype="numeric"\<close>, \<open>force_all_finite=True\<close>,
  \<open>ensure_2d=True\<close>, \<open>allow_nd=False\<close>, \<open>ensure_min_samples=1\<close>,
  \<open>ensure_min_features=1\<close>), in the order of its checks. Each failure is a
  \<open>ValueError\<close>; an array that passes is returned as it is.
\<close>

definition check_array :: "ndarray \<Rightarrow> exn + ndarray" where
  "check_array array =
    (if is_complex_data (a_data array) then
       Inl (ValueError ''Complex data not supported'')
     else if ndim array = 0 then
       Inl (ValueError ''Expected 2D array, got scalar array instead'')
     else if ndim array = 1 then
       Inl (ValueError ''Expected 2D array, got 1D array instead'')
     else if ndim array \<ge> 3 then
       Inl (ValueError ''Found array with dim >= 3, expected <= 2'')
     else if contains_nan (a_data array) then
       Inl (ValueError ''Input contains NaN'')
     else if \<not> all_true (isfinite_data (a_data array)) then
       Inl (ValueError ''Input contains infinity or a value too large for dtype'')
     else if a_shape array ! 0 < 1 then
       Inl (ValueError ''Found array with 0 sample(s) while a minimum of 1 is required'')
     else if a_shape array ! 1 < 1 then
       Inl (ValueError ''Found array with 0 feature(s) while a minimum of 1 is required'')
     else Inr array)"

text \<open>\<open>x.copy()\<close> of an array: a new array with the same contents, in C order.\<close>

definition copy :: "ndarray \<Rightarrow> ndarray" where
  "copy x = x"

text \<open>
  \<open>torch.from_numpy\<close>: a CPU tensor over the array's memory, of the same element type.
  The array is a fresh C-ordered copy, so the tensor is contiguous. \<open>bfloat16\<close> is not a
  numpy type; an array of such an extension type is refused with a \<open>TypeError\<close>.
\<close>

definition from_numpy :: "ndarray \<Rightarrow> exn + tensor" where
  "from_numpy x =
    (if dtype_of (a_data x) = DFloat BFloat16 then
       Inl (TypeError ''can't convert np.ndarray of this type'')
     else Inr \<lparr>t_data = a_data x, t_shape = a_shape x, t_device = CPU,
               t_contiguous = True, t_requires_grad = False\<rparr>)"

text \<open>\<open>x.to(device)\<close>: the same tensor on another device.\<close>

definition to_device :: "device \<Rightarrow> tensor \<Rightarrow> tensor" where
  "to_device d x = x\<lparr>t_device := d\<rparr>"

text \<open>
  Rounding a real to the nearest integer, a tie going to the even one, as IEEE 754
  arithmetic rounds.
\<close>

definition round_half_even :: "real \<Rightarrow> int" where
  "round_half_even y =
    (let f = \<lfloor>y\<rfloor>
     in if y - of_int f < 1 / 2 then f
        else if 1 / 2 < y - of_int f then f + 1
        else if even f then f else f + 1)"

text \<open>
  The \<open>float32\<close> nearest to a real: a significand of 24 bits at the exponent \<open>e\<close> of
  the value (not below \<open>-126\<close>, where the subnormal numbers begin), so a multiple of
  \<open>q = 2 ^ (e - 23)\<close>, rounded to nearest with ties to even; a magnitude that rounds to
  \<open>2 ^ 128\<close> or more overflows to an infinity.
\<close>

definition float32_of_real :: "real \<Rightarrow> scalar" where
  "float32_of_real x =
    (if x = 0 then Fin 0
     else
       let e = max \<lfloor>log 2 \<bar>x\<bar>\<rfloor> (- 126);
           q = 2 powr (of_int (e - 23));
           v = of_int (round_half_even (\<bar>x\<bar> / q)) * q
       in if 2 ^ 128 \<le> v then (if x < 0 then NegInf else PosInf)
          else Fin (sgn x * v))"

fun float32_of_scalar :: "scalar \<Rightarrow> scalar" where
  "float32_of_scalar (Fin x) = float32_of_real x"
| "float32_of_scalar PosInf = PosInf"
| "float32_of_scalar NegInf = NegInf"
| "float32_of_scalar NaN = NaN"

text \<open>
  \<open>x.float()\<close>: every element converted to \<open>float32\<close>. Booleans become 0 and 1; an
  integer and a floating-point element become the nearest \<open>float32\<close> (an integer beyond
  \<open>2 ^ 24\<close> in magnitude may change); of a complex element the real part is kept.
\<close>

fun float_data :: "data \<Rightarrow> data" where
  "float_data (BoolData bs) = FloatData Float32 (map (\<lambda>b. Fin (if b then 1 else 0)) bs)"
| "float_data (IntData _ ns) = FloatData Float32 (map (\<lambda>n. float32_of_real (real_of_int n)) ns)"
| "float_data (FloatData _ xs) = FloatData Float32 (map float32_of_scalar xs)"
| "float_data (ComplexData _ zs) = FloatData Float32 (map (\<lambda>z. float32_of_scalar (fst z)) zs)"

definition float :: "tensor \<Rightarrow> tensor" where
  "float x = x\<lparr>t_data := float_data (t_data x)\<rparr>"

definition contiguous :: "tensor \<Rightarrow> tensor" where
  "contiguous x = x\<lparr>t_contiguous := True\<rparr>"

text \<open>
  \<open>output.detach()\<close>: a tensor cut from the autograd graph. Only a tensor has the
  method; on any other value the attribute lookup fails.
\<close>

fun detach :: "pyval \<Rightarrow> exn + pyval" where
  "detach (VTensor x) = Inr (VTensor (x\<lparr>t_requires_grad := False\<rparr>))"
| "detach _ = Inl (AttributeError ''object has no attribute detach'')"

text \<open>
  \<open>x.numpy()\<close>: the array sharing a CPU tensor's memory. It is refused for a tensor on
  another device, for one that requires grad, and for \<open>bfloat16\<close>.
\<close>

definition numpy :: "tensor \<Rightarrow> exn + ndarray" where
  "numpy x =
    (if t_device x \<noteq> CPU then
       Inl (TypeError ''can't convert cuda device type tensor to numpy'')
     else if t_requires_grad x then
       Inl (RuntimeError ''Can't call numpy() on Tensor that requires grad'')
     else if dtype_of (t_data x) = DFloat BFloat16 then
       Inl (TypeError ''Got unsupported ScalarType BFloat16'')
     else Inr \<lparr>a_data = t_data x, a_shape = t_shape x\<rparr>)"

text \<open>
  The device a \<open>device=\<close> argument names: a \<open>torch.device\<close>, or one of the strings
  \<open>"cpu"\<close>, \<open>"cuda"\<close>, \<open>"cuda:0"\<close> (the only string this module passes is \<open>"cpu"\<close>).
\<close>

fun as_device :: "pyval \<Rightarrow> exn + device" where
  "as_device (VDevice d) = Inr d"
| "as_device (VStr s) =
    (if s = ''cpu'' then Inr CPU
     else if s = ''cuda'' \<or> s = ''cuda:0'' then Inr (CUDA 0)
     else Inl (RuntimeError ''Expected one of cpu, cuda, ... device type''))"
| "as_device _ = Inl (TypeError ''to() received an invalid combination of arguments'')"

subsection \<open>contiguous_output\<close>

text \<open>
  The decorator calls the function and makes its output contiguous: a tuple is replaced
  by the generator of its elements, each tensor among them made contiguous; a tensor is
  made contiguous; any other output is returned as it is. An exception of the function
  passes through.
\<close>

fun contiguous_elem :: "pyval \<Rightarrow> pyval" where
  "contiguous_elem (VTensor x) = VTensor (contiguous x)"
| "contiguous_elem out = out"

fun contiguous_value :: "pyval \<Rightarrow> pyval" where
  "contiguous_value (VTuple outs) = VGen (map contiguous_elem outs)"
| "contiguous_value (VTensor x) = VTensor (contiguous x)"
| "contiguous_value output = output"

definition contiguous_output :: "('a \<Rightarrow> exn + pyval) \<Rightarrow> 'a \<Rightarrow> exn + pyval" where
  "contiguous_output func args =
    (case func args of
       Inl e \<Rightarrow> Inl e
     | Inr output \<Rightarrow> Inr (contiguous_value output))"

subsection \<open>to_torch\<close>

text \<open>
  The two branches of \<open>to_torch\<close> on the type of \<open>x\<close>: each gives the tensor on
  \<open>new_device\<close> (the source's \<open>x_\<close>, here \<open>x0\<close>) with \<open>input_backend\<close> and
  \<open>input_device\<close>, or raises.
\<close>

definition to_torch_checks ::
  "device \<Rightarrow> input \<Rightarrow> exn + (tensor \<times> pyval \<times> pyval)" where
  "to_torch_checks new_device x =
    (case x of
       Tensor t \<Rightarrow>
         if is_complex t then
           Inl (ValueError ''[TorchDR] ERROR : complex tensors are not supported.'')
         else if \<not> all_true (isfinite t) then
           Inl (ValueError ''[TorchDR] ERROR : input contains infinite values.'')
         else
           Inr (if t_device t \<noteq> new_device then to_device new_device t else t,
                VStr ''torch'', VDevice (t_device t))
     | ArrayLike a \<Rightarrow>
         (case check_array a of
            Inl e \<Rightarrow> Inl e
          | Inr a' \<Rightarrow>
              if any_true (iscomplex a') then
                Inl (ValueError ''[TorchDR] ERROR : complex arrays are not supported.'')
              else
                (case from_numpy (copy a') of
                   Inl e \<Rightarrow> Inl e
                 | Inr t \<Rightarrow> Inr (to_device new_device t, VStr ''numpy'', VStr ''cpu''))))"

text \<open>
  The body of \<open>to_torch\<close>, before the decorator. \<open>cuda_is_available\<close> is what
  \<open>torch.cuda.is_available()\<close> answers on the machine. After the branches, a tensor
  that is not floating-point is converted (\<open>x'\<close> is \<open>x_\<close> from then on), and the
  tensor is returned alone or with the backend and the device of the input.
\<close>

fun to_torch_body ::
  "bool \<Rightarrow> input \<times> string option \<times> bool \<times> bool \<Rightarrow> exn + pyval" where
  "to_torch_body cuda_is_available (x, device, verbose, return_backend_device) =
    (let use_gpu = (device \<in> set [Some ''cuda'', Some ''cuda:0'', Some ''gpu'', None]
                    \<and> cuda_is_available);
         new_device = (if use_gpu then CUDA 0 else CPU)
     in (case to_torch_checks new_device x of
           Inl e \<Rightarrow> Inl e
         | Inr (x0, input_backend, input_device) \<Rightarrow>
             (let x' = (if \<not> is_floating_point (dtype_of (t_data x0)) then float x0 else x0)
              in if return_backend_device then
                   Inr (VTuple [VTensor x', input_backend, input_device])
                 else Inr (VTensor x'))))"

text \<open>\<open>to_torch\<close> as the module exports it, under \<open>@contiguous_output\<close>.\<close>

definition to_torch ::
  "bool \<Rightarrow> input \<Rightarrow> string option \<Rightarrow> bool \<Rightarrow> bool \<Rightarrow> exn + pyval" where
  "to_torch cuda_is_available x device verbose return_backend_device =
    contiguous_output (to_torch_body cuda_is_available)
      (x, device, verbose, return_backend_device)"

subsection \<open>torch_to_backend and handle_backend\<close>

text \<open>
  \<open>torch_to_backend\<close> moves the tensor to the device and, for the numpy backend, turns
  it into an array. A value that is not a tensor has no \<open>to\<close>.
\<close>

definition torch_to_backend :: "pyval \<Rightarrow> pyval \<Rightarrow> pyval \<Rightarrow> exn + pyval" where
  "torch_to_backend x backend device =
    (case x of
       VTensor t \<Rightarrow>
         (case as_device device of
            Inl e \<Rightarrow> Inl e
          | Inr d \<Rightarrow>
              let x' = to_device d t
              in if backend = VStr ''numpy'' then
                   (case numpy x' of Inl e \<Rightarrow> Inl e | Inr a \<Rightarrow> Inr (VArray a))
                 else Inr (VTensor x'))
     | _ \<Rightarrow> Inl (AttributeError ''object has no attribute to''))"

text \<open>Unpacking into three names: a tuple or a generator of exactly three values.\<close>

fun unpack3 :: "pyval \<Rightarrow> exn + (pyval \<times> pyval \<times> pyval)" where
  "unpack3 (VTuple [a, b, c]) = Inr (a, b, c)"
| "unpack3 (VGen [a, b, c]) = Inr (a, b, c)"
| "unpack3 (VTuple _) = Inl (ValueError ''wrong number of values to unpack'')"
| "unpack3 (VGen _) = Inl (ValueError ''wrong number of values to unpack'')"
| "unpack3 _ = Inl (TypeError ''cannot unpack non-iterable object'')"

text \<open>The object the wrapped method belongs to: only its \<open>device\<close> attribute is read.\<close>

record affinity =
  device :: "string option"

text \<open>
  The wrapper \<open>handle_backend\<close> puts around a method \<open>func(self, X)\<close>: the input is
  converted by \<open>to_torch\<close>, the method runs on the converted tensor, and its detached
  output is converted back to the backend and device of the input.
\<close>

definition handle_backend ::
  "bool \<Rightarrow> (affinity \<Rightarrow> pyval \<Rightarrow> exn + pyval) \<Rightarrow> affinity \<Rightarrow> input \<Rightarrow> exn + pyval" where
  "handle_backend cuda_is_available func self X =
    (case to_torch cuda_is_available X (device self) False True of
       Inl e \<Rightarrow> Inl e
     | Inr r \<Rightarrow>
         (case unpack3 r of
            Inl e \<Rightarrow> Inl e
          | Inr (X', input_backend, input_device) \<Rightarrow>
              (case func self X' of
                 Inl e \<Rightarrow> Inl e
               | Inr out \<Rightarrow>
                   (case detach out of
                      Inl e \<Rightarrow> Inl e
                    | Inr output \<Rightarrow> torch_to_backend output input_backend input_device))))"

section \<open>Kernel transform (spec 4.2)\<close>

text \<open>
  The classes \<open>GibbsAffinity\<close> and \<open>StudentAffinity\<close> that
  \<open>torchdr/tests/test_affinity.py\<close> imports from \<open>torchdr.affinity\<close> are not among the
  source files; the test only calls them. Their transform is modelled from section 4.2
  of the specification, over the reals: a matrix is the list of its rows, and the
  arithmetic is exact (no rounding).
\<close>

type_synonym matrix = "real list list"

datatype kernel = Gibbs | Student

text \<open>The axis argument \<open>dim\<close>: \<open>0\<close>, \<open>1\<close> or \<open>(0, 1)\<close>.\<close>

datatype norm_dim = Dim0 | Dim1 | DimBoth

text \<open>
  Modelled from the spec: the kernels of \<open>torchdr.affinity\<close> (not in the source files),
  "Gibbs (P_ij = exp(-C_ij)), Student (P_ij = (1+C_ij)^-1)".
\<close>

fun kernel_value :: "kernel \<Rightarrow> real \<Rightarrow> real" where
  "kernel_value Gibbs c = exp (- c)"
| "kernel_value Student c = inverse (1 + c)"

text \<open>
  Modelled from the spec: the kernel is "a fixed nonlinearity" applied "to a cost
  matrix", entry by entry (\<open>torchdr.affinity\<close>, not in the source files).
\<close>

definition apply_kernel :: "kernel \<Rightarrow> matrix \<Rightarrow> matrix" where
  "apply_kernel k C = map (map (kernel_value k)) C"

text \<open>
  Modelled from the spec: the sums the test's \<open>check_marginal\<close> and \<open>check_total_sum\<close>
  (\<open>torchdr.utils\<close>, not in the source files) compare with 1. \<open>sum_dim1 M\<close> is
  \<open>M.sum(1)\<close>, the sum of each row; \<open>sum_dim0 M\<close> is \<open>M.sum(0)\<close>, the sum of each
  column of a square matrix; \<open>total_sum M\<close> is the sum of all entries.
\<close>

definition sum_dim1 :: "matrix \<Rightarrow> real list" where
  "sum_dim1 M = map sum_list M"

definition sum_dim0 :: "matrix \<Rightarrow> real list" where
  "sum_dim0 M = map (\<lambda>j. sum_list (map (\<lambda>row. row ! j) M)) [0..<length M]"

definition total_sum :: "matrix \<Rightarrow> real" where
  "total_sum M = sum_list (sum_dim1 M)"

text \<open>
  Modelled from the spec: the normalization of \<open>torchdr.affinity\<close> (not in the source
  files), "Normalizes P by summing over the specified axis/axes so the result sums to 1
  along that axis (or globally if both)": every entry is divided by the sum over the
  axis it lies on.
\<close>

fun normalize_sum :: "norm_dim \<Rightarrow> matrix \<Rightarrow> matrix" where
  "normalize_sum Dim0 K = map (\<lambda>row. map (\<lambda>j. row ! j / sum_dim0 K ! j) [0..<length row]) K"
| "normalize_sum Dim1 K = map (\<lambda>row. map (\<lambda>x. x / sum_list row) row) K"
| "normalize_sum DimBoth K = map (map (\<lambda>x. x / total_sum K)) K"

text \<open>
  Modelled from the spec: the contract \<open>transform(C, kernel, dim) -> P\<close> of the kernel
  transform module (\<open>GibbsAffinity\<close>, \<open>StudentAffinity\<close>; not in the source files).
\<close>

definition transform :: "matrix \<Rightarrow> kernel \<Rightarrow> norm_dim \<Rightarrow> matrix" where
  "transform C k ax = normalize_sum ax (apply_kernel k C)"

text \<open>
  Modelled from the spec: the ground cost matrix of the data model (section 3), computed
  by the ground cost module that is not in the source files: "n x n, C[i,j] =
  distance(X_i, X_j) under a chosen metric; symmetric, zero diagonal, nonnegative".
\<close>

definition is_square :: "nat \<Rightarrow> matrix \<Rightarrow> bool" where
  "is_square n M = (length M = n \<and> list_all (\<lambda>row. length row = n) M)"

definition all_nonnegative :: "matrix \<Rightarrow> bool" where
  "all_nonnegative M = list_all (list_all (\<lambda>x. 0 \<le> x)) M"

definition is_cost_matrix :: "nat \<Rightarrow> matrix \<Rightarrow> bool" where
  "is_cost_matrix n C =
    (is_square n C \<and> all_nonnegative C
     \<and> list_all (\<lambda>i. C ! i ! i = 0) [0..<n]
     \<and> list_all (\<lambda>i. list_all (\<lambda>j. C ! i ! j = C ! j ! i) [0..<n]) [0..<n])"

section \<open>Predicates of the properties\<close>

text \<open>What the kernel-transform tests check of \<open>P\<close>, by the axis of the normalization.\<close>

fun sums_to_one :: "nat \<Rightarrow> norm_dim \<Rightarrow> matrix \<Rightarrow> bool" where
  "sums_to_one n Dim0 P = (sum_dim0 P = replicate n 1)"
| "sums_to_one n Dim1 P = (sum_dim1 P = replicate n 1)"
| "sums_to_one n DimBoth P = (total_sum P = 1)"

definition all_positive :: "matrix \<Rightarrow> bool" where
  "all_positive M = list_all (list_all (\<lambda>x. 0 < x)) M"

text \<open>The storage, the element type and the number of dimensions of an input.\<close>

fun input_data :: "input \<Rightarrow> data" where
  "input_data (Tensor t) = t_data t"
| "input_data (ArrayLike a) = a_data a"

text \<open>An input is complex by its element type, as \<open>torch.is_complex\<close> and \<open>check_array\<close> judge it.\<close>

definition is_complex_input :: "input \<Rightarrow> bool" where
  "is_complex_input x = is_complex_data (input_data x)"

definition contains_nonfinite :: "input \<Rightarrow> bool" where
  "contains_nonfinite x = (\<not> all_true (isfinite_data (input_data x)))"

text \<open>
  The errors that report a complex or a non-finite input: the three of \<open>to_torch\<close> and
  the three of \<open>check_array\<close>.
\<close>

definition invalid_input_error :: "exn \<Rightarrow> bool" where
  "invalid_input_error e =
    (e = ValueError ''[TorchDR] ERROR : complex tensors are not supported.''
   \<or> e = ValueError ''[TorchDR] ERROR : input contains infinite values.''
   \<or> e = ValueError ''[TorchDR] ERROR : complex arrays are not supported.''
   \<or> e = ValueError ''Complex data not supported''
   \<or> e = ValueError ''Input contains NaN''
   \<or> e = ValueError ''Input contains infinity or a value too large for dtype'')"

text \<open>The device \<open>to_torch\<close> computes on (its \<open>new_device\<close>).\<close>

definition new_device_of :: "bool \<Rightarrow> string option \<Rightarrow> device" where
  "new_device_of cuda_is_available dev =
    (if dev \<in> set [Some ''cuda'', Some ''cuda:0'', Some ''gpu'', None] \<and> cuda_is_available
     then CUDA 0 else CPU)"

fun input_ndim :: "input \<Rightarrow> nat" where
  "input_ndim (Tensor t) = length (t_shape t)"
| "input_ndim (ArrayLike a) = ndim a"

text \<open>A wrapped method for the examples: it returns the tensor it is given.\<close>

definition returns_input :: "affinity \<Rightarrow> pyval \<Rightarrow> exn + pyval" where
  "returns_input self X = Inr X"

section \<open>Rounding to float32\<close>

lemma round_half_even_of_int: "round_half_even (of_int z) = z"
  by (simp add: round_half_even_def)

lemma floor_log2_bounds:
  assumes "2 ^ k \<le> x" "x < 2 ^ Suc k"
  shows "\<lfloor>log 2 x\<rfloor> = int k"
proof -
  have x: "0 < x" using assms(1) by (smt (verit) zero_less_power)
  have "real k \<le> log 2 x"
    using assms(1) x by (simp add: le_log_iff powr_realpow)
  moreover have "log 2 x < real k + 1"
    using assms(2) x by (simp add: log_less_iff powr_realpow powr_add)
  ultimately show ?thesis by (simp add: floor_eq_iff)
qed

text \<open>An integer below \<open>2 ^ 24\<close> in magnitude is a \<open>float32\<close>: the conversion is exact.\<close>

lemma float32_of_real_exact:
  assumes "\<bar>m\<bar> < 2 ^ 24"
  shows "float32_of_real (real_of_int m) = Fin (real_of_int m)"
proof (cases "m = 0")
  case True
  then show ?thesis by (simp add: float32_of_real_def)
next
  case False
  define a where "a = \<bar>real_of_int m\<bar>"
  define L where "L = \<lfloor>log 2 a\<rfloor>"
  define j where "j = nat (23 - L)"
  from False have a1: "1 \<le> a" unfolding a_def by linarith
  from assms have "real_of_int \<bar>m\<bar> < real_of_int (2 ^ 24)" by (simp only: of_int_less_iff)
  then have a2: "a < 2 ^ 24" unfolding a_def by simp
  have "0 \<le> log 2 a" using a1 by simp
  then have L0: "0 \<le> L" unfolding L_def by simp
  have "log 2 a < 24"
    using a1 a2 by (simp add: log_less_iff powr_realpow [of 2 24, simplified])
  then have L1: "L \<le> 23" unfolding L_def by (simp add: floor_less_iff [of _ 24, simplified] )
  have e: "max L (- 126) = L" using L0 by simp
  have Lj: "real_of_int (L - 23) = - real j" using L1 by (simp add: j_def)
  have q: "2 powr (real_of_int (L - 23)) = 1 / 2 ^ j"
    unfolding Lj by (simp add: powr_minus powr_realpow inverse_eq_divide)
  have "a / (1 / 2 ^ j) = real_of_int (\<bar>m\<bar> * 2 ^ j)" by (simp add: a_def)
  then have r: "round_half_even (a / (1 / 2 ^ j)) = \<bar>m\<bar> * 2 ^ j"
    by (simp only: round_half_even_of_int)
  have v: "real_of_int (\<bar>m\<bar> * 2 ^ j) * (1 / 2 ^ j) = a" by (simp add: a_def)
  have big: "\<not> (2 ^ 128 \<le> a)" using a2 by simp
  have s: "sgn (real_of_int m) * a = real_of_int m"
    unfolding a_def by (simp add: sgn_real_def)
  from False have nz: "real_of_int m \<noteq> 0" by simp
  show ?thesis
    unfolding float32_of_real_def using nz
    by (simp only: Let_def a_def [symmetric] L_def [symmetric] e q r v big s if_False)
qed

lemma float32_of_real_numeral:
  "(numeral w :: int) < 2 ^ 24 \<Longrightarrow> float32_of_real (numeral w) = Fin (numeral w)"
  using float32_of_real_exact [of "numeral w"] by simp

lemma float32_of_real_one: "float32_of_real 1 = Fin 1"
  using float32_of_real_exact [of 1] by simp

text \<open>
  Beyond \<open>2 ^ 24\<close> the conversion rounds: \<open>16777217 = 2 ^ 24 + 1\<close> lies halfway between
  two \<open>float32\<close> values and becomes the even one, \<open>16777216\<close>.
\<close>

lemma float32_of_real_tie: "float32_of_real 16777217 = Fin 16777216"
proof -
  have l: "\<lfloor>log 2 (16777217::real)\<rfloor> = 24"
    using floor_log2_bounds [of 24 "16777217::real"] by simp
  have r: "round_half_even (16777217 / 2) = 8388608"
    by (simp add: round_half_even_def Let_def)
  show ?thesis
    by (simp add: float32_of_real_def l Let_def r)
qed

section \<open>Input validation of to_torch\<close>

lemma is_nan_not_finite: "is_nan s \<Longrightarrow> \<not> finite_scalar s"
  by (cases s) simp_all

lemma contains_nan_not_finite: "contains_nan d \<Longrightarrow> \<not> all_true (isfinite_data d)"
  by (cases d) (auto simp: all_true_def list_ex_iff list_all_iff dest: is_nan_not_finite)

lemma real_data_not_iscomplex: "\<not> is_complex_data d \<Longrightarrow> \<not> any_true (iscomplex_data d)"
  by (cases d) (auto simp: any_true_def list_ex_iff)

lemma check_array_Inr: "check_array a = Inr a' \<Longrightarrow>
   a' = a \<and> \<not> is_complex_data (a_data a) \<and> ndim a = 2 \<and> all_true (isfinite_data (a_data a))"
  by (auto simp: check_array_def split: if_splits)

lemma to_torch_Inl:
  "to_torch c x d v r = Inl e \<longleftrightarrow> to_torch_checks (new_device_of c d) x = Inl e"
  by (auto simp: to_torch_def contiguous_output_def new_device_of_def Let_def
      split: sum.splits prod.splits)

lemma to_torch_Inr:
  "to_torch c x d v r = Inr out \<longleftrightarrow>
    (\<exists>x0 b dv. to_torch_checks (new_device_of c d) x = Inr (x0, b, dv) \<and>
       out = (let x' = contiguous (if is_floating_point (dtype_of (t_data x0)) then x0 else float x0)
              in if r then VGen [VTensor x', contiguous_elem b, contiguous_elem dv] else VTensor x'))"
  by (auto simp: to_torch_def contiguous_output_def new_device_of_def Let_def
      split: sum.splits prod.splits)

lemma to_torch_checks_invalid:
  "is_complex_input x \<or> contains_nonfinite x \<Longrightarrow>
     \<exists>msg. to_torch_checks nd x = Inl (ValueError msg)"
  by (cases x) (auto simp: to_torch_checks_def is_complex_input_def contains_nonfinite_def
      is_complex_def isfinite_def check_array_def)

lemma to_torch_checks_valid:
  "\<not> is_complex_input x \<Longrightarrow> \<not> contains_nonfinite x \<Longrightarrow> to_torch_checks nd x = Inl e
    \<Longrightarrow> \<not> invalid_input_error e"
  by (cases x)
    (auto simp: to_torch_checks_def is_complex_input_def contains_nonfinite_def
      is_complex_def isfinite_def check_array_def invalid_input_error_def from_numpy_def
      iscomplex_def
      dest: contains_nan_not_finite real_data_not_iscomplex split: if_splits sum.splits)

lemma to_torch_checks_tensor_valid:
  "\<not> is_complex_input (Tensor t) \<Longrightarrow> \<not> contains_nonfinite (Tensor t) \<Longrightarrow>
    \<exists>x0. to_torch_checks nd (Tensor t) = Inr (x0, VStr ''torch'', VDevice (t_device t))"
  by (auto simp: to_torch_checks_def is_complex_input_def contains_nonfinite_def
      is_complex_def isfinite_def)

lemma to_torch_checks_array_valid:
  "\<not> is_complex_input (ArrayLike a) \<Longrightarrow> \<not> contains_nonfinite (ArrayLike a) \<Longrightarrow>
   ndim a = 2 \<Longrightarrow> 1 \<le> a_shape a ! 0 \<Longrightarrow> 1 \<le> a_shape a ! 1 \<Longrightarrow>
   dtype_of (a_data a) \<noteq> DFloat BFloat16 \<Longrightarrow>
    \<exists>x0. to_torch_checks nd (ArrayLike a) = Inr (x0, VStr ''numpy'', VStr ''cpu'')"
  by (auto simp: to_torch_checks_def is_complex_input_def contains_nonfinite_def
      check_array_def from_numpy_def copy_def iscomplex_def
      dest: contains_nan_not_finite real_data_not_iscomplex)

lemma to_torch_checks_Inr:
  "to_torch_checks nd x = Inr (x0, b, dv) \<Longrightarrow>
     t_device x0 = nd \<and>
     (case x of
        Tensor t \<Rightarrow> b = VStr ''torch'' \<and> dv = VDevice (t_device t) \<and> t_data x0 = t_data t
      | ArrayLike a \<Rightarrow> b = VStr ''numpy'' \<and> dv = VStr ''cpu'' \<and> t_data x0 = a_data a \<and> ndim a = 2)"
  by (cases x)
    (auto simp: to_torch_checks_def to_device_def from_numpy_def copy_def
      dest!: check_array_Inr split: if_splits sum.splits)

lemmas eval_defs =
  to_torch_def contiguous_output_def to_torch_checks_def is_complex_def isfinite_def
  all_true_def any_true_def check_array_def ndim_def iscomplex_def from_numpy_def copy_def
  to_device_def float_def contiguous_def handle_backend_def torch_to_backend_def numpy_def
  returns_input_def is_complex_input_def contains_nonfinite_def invalid_input_error_def
  float32_of_real_numeral float32_of_real_one

text \<open>
  Claim C7. A complex input, and an input that contains a value that is not finite, makes
  \<open>to_torch\<close> raise a \<open>ValueError\<close>, whatever the device and the flags, so no tensor is
  returned: a tensor is refused by the two checks of \<open>to_torch\<close>, anything else by
  \<open>check_array\<close>. An input that is real and finite never gets one of the errors that
  report a complex or non-finite input (\<open>invalid_input_error\<close>). If it is a tensor, it
  gets no error at all; if it is an array, it gets none when it has two dimensions, at
  least one row and one column, and an element type \<open>torch.from_numpy\<close> knows (a real,
  finite array can still be refused by \<open>check_array\<close> for its shape; that error is
  another one).
\<close>

theorem to_torch_input_validity:
  "(is_complex_input x \<or> contains_nonfinite x \<longrightarrow>
      (\<exists>msg. to_torch c x d v r = Inl (ValueError msg)))
   \<and> (\<not> is_complex_input x \<and> \<not> contains_nonfinite x \<longrightarrow>
      (\<forall>e. to_torch c x d v r = Inl e \<longrightarrow> \<not> invalid_input_error e))
   \<and> (\<forall>t. x = Tensor t \<and> \<not> is_complex_input x \<and> \<not> contains_nonfinite x \<longrightarrow>
      (\<exists>out. to_torch c x d v r = Inr out))
   \<and> (\<forall>a. x = ArrayLike a \<and> \<not> is_complex_input x \<and> \<not> contains_nonfinite x
          \<and> ndim a = 2 \<and> 1 \<le> a_shape a ! 0 \<and> 1 \<le> a_shape a ! 1
          \<and> dtype_of (a_data a) \<noteq> DFloat BFloat16 \<longrightarrow>
      (\<exists>out. to_torch c x d v r = Inr out))"
proof (intro conjI impI allI)
  assume "is_complex_input x \<or> contains_nonfinite x"
  then show "\<exists>msg. to_torch c x d v r = Inl (ValueError msg)"
    using to_torch_checks_invalid [of x "new_device_of c d"] by (simp add: to_torch_Inl)
next
  fix e
  assume "\<not> is_complex_input x \<and> \<not> contains_nonfinite x" and "to_torch c x d v r = Inl e"
  then show "\<not> invalid_input_error e"
    using to_torch_checks_valid [of x "new_device_of c d" e] by (simp add: to_torch_Inl)
next
  fix t
  assume "x = Tensor t \<and> \<not> is_complex_input x \<and> \<not> contains_nonfinite x"
  then show "\<exists>out. to_torch c x d v r = Inr out"
    using to_torch_checks_tensor_valid [of t "new_device_of c d"]
    by (auto simp: to_torch_Inr)
next
  fix a
  assume "x = ArrayLike a \<and> \<not> is_complex_input x \<and> \<not> contains_nonfinite x
          \<and> ndim a = 2 \<and> 1 \<le> a_shape a ! 0 \<and> 1 \<le> a_shape a ! 1
          \<and> dtype_of (a_data a) \<noteq> DFloat BFloat16"
  then show "\<exists>out. to_torch c x d v r = Inr out"
    using to_torch_checks_array_valid [of a "new_device_of c d"]
    by (auto simp: to_torch_Inr)
qed

text \<open>
  The theorem at four inputs: a tensor holding NaN is refused with a \<open>ValueError\<close>, a
  real finite tensor and a real finite array of two rows and two columns are converted,
  and the error of a real finite one-dimensional array is the shape error of
  \<open>check_array\<close>, not an error about its values.
\<close>

theorem to_torch_input_validity_witness:
  "(\<exists>msg. to_torch False
      (Tensor \<lparr>t_data = FloatData Float32 [Fin 1, NaN], t_shape = [2], t_device = CPU,
               t_contiguous = True, t_requires_grad = False\<rparr>) None True False
      = Inl (ValueError msg))
   \<and> (\<exists>out. to_torch False
      (Tensor \<lparr>t_data = FloatData Float32 [Fin 1, Fin 2], t_shape = [2], t_device = CPU,
               t_contiguous = True, t_requires_grad = False\<rparr>) None True False
      = Inr out)
   \<and> (\<exists>out. to_torch False
      (ArrayLike \<lparr>a_data = FloatData Float64 [Fin 1, Fin 2, Fin 3, Fin 4], a_shape = [2, 2]\<rparr>)
      None True False = Inr out)
   \<and> to_torch False (ArrayLike \<lparr>a_data = FloatData Float64 [Fin 1, Fin 2], a_shape = [2]\<rparr>)
        None True False = Inl (ValueError ''Expected 2D array, got 1D array instead'')
   \<and> \<not> invalid_input_error (ValueError ''Expected 2D array, got 1D array instead'')"
  using
    to_torch_input_validity [of "Tensor \<lparr>t_data = FloatData Float32 [Fin 1, NaN], t_shape = [2],
      t_device = CPU, t_contiguous = True, t_requires_grad = False\<rparr>" False None True False]
    to_torch_input_validity [of "Tensor \<lparr>t_data = FloatData Float32 [Fin 1, Fin 2], t_shape = [2],
      t_device = CPU, t_contiguous = True, t_requires_grad = False\<rparr>" False None True False]
    to_torch_input_validity [of "ArrayLike \<lparr>a_data = FloatData Float64 [Fin 1, Fin 2, Fin 3, Fin 4],
      a_shape = [2, 2]\<rparr>" False None True False]
    to_torch_input_validity [of "ArrayLike \<lparr>a_data = FloatData Float64 [Fin 1, Fin 2], a_shape = [2]\<rparr>"
      False None True False]
  by (simp add: eval_defs)

section \<open>Shape validation\<close>

text \<open>
  Claim C8. The validation of \<open>to_torch\<close> checks the number of dimensions on one of its
  two branches only. A real, finite tensor with one dimension is returned by
  \<open>to_torch\<close> as it is, with no error, while the array of the same values and shape is
  refused by \<open>check_array\<close> on the other branch.
\<close>

theorem to_torch_accepts_1d_tensor:
  "input_ndim (Tensor \<lparr>t_data = FloatData Float32 [Fin 1, Fin 2], t_shape = [2], t_device = CPU,
               t_contiguous = True, t_requires_grad = False\<rparr>) = 1
   \<and> to_torch False
      (Tensor \<lparr>t_data = FloatData Float32 [Fin 1, Fin 2], t_shape = [2], t_device = CPU,
               t_contiguous = True, t_requires_grad = False\<rparr>) None True False
      = Inr (VTensor \<lparr>t_data = FloatData Float32 [Fin 1, Fin 2], t_shape = [2], t_device = CPU,
               t_contiguous = True, t_requires_grad = False\<rparr>)
   \<and> input_ndim (ArrayLike \<lparr>a_data = FloatData Float32 [Fin 1, Fin 2], a_shape = [2]\<rparr>) = 1
   \<and> to_torch False (ArrayLike \<lparr>a_data = FloatData Float32 [Fin 1, Fin 2], a_shape = [2]\<rparr>)
        None True False
      = Inl (ValueError ''Expected 2D array, got 1D array instead'')"
  by (simp add: eval_defs)

section \<open>Backend and device of the output\<close>

text \<open>
  Claim C9. Whenever a call wrapped by \<open>handle_backend\<close> returns, its result has the
  backend and the device of the input: an array for an array input, and for a tensor
  input a tensor on the device the input was on, whatever device the method computed on.
\<close>

theorem handle_backend_roundtrip:
  assumes "handle_backend c func self X = Inr out"
  shows "case X of
           ArrayLike a \<Rightarrow> (\<exists>a'. out = VArray a')
         | Tensor t \<Rightarrow> (\<exists>t'. out = VTensor t' \<and> t_device t' = t_device t)"
proof -
  from assms obtain r X' b dv res outp where
    r: "to_torch c X (device self) False True = Inr r" and
    u: "unpack3 r = Inr (X', b, dv)" and
    f: "func self X' = Inr res" and
    d: "detach res = Inr outp" and
    t: "torch_to_backend outp b dv = Inr out"
    by (auto simp: handle_backend_def split: sum.splits prod.splits)
  from r obtain x0 b0 dv0 where
    c: "to_torch_checks (new_device_of c (device self)) X = Inr (x0, b0, dv0)" and
    r': "r = VGen [VTensor (contiguous (if is_floating_point (dtype_of (t_data x0)) then x0 else float x0)),
                  contiguous_elem b0, contiguous_elem dv0]"
    by (auto simp: to_torch_Inr Let_def)
  from u r' have b: "b = contiguous_elem b0" and dv: "dv = contiguous_elem dv0" by simp_all
  from d obtain y where y: "outp = VTensor y" by (cases res) auto
  show ?thesis
  proof (cases X)
    case (Tensor t)
    with to_torch_checks_Inr [OF c] have "b0 = VStr ''torch''" "dv0 = VDevice (t_device t)"
      by simp_all
    with t b dv y Tensor show ?thesis
      by (auto simp: torch_to_backend_def to_device_def Let_def)
  next
    case (ArrayLike a)
    with to_torch_checks_Inr [OF c] have "b0 = VStr ''numpy''" "dv0 = VStr ''cpu''"
      by simp_all
    with t b dv y ArrayLike show ?thesis
      by (auto simp: torch_to_backend_def Let_def split: sum.splits)
  qed
qed

text \<open>
  The theorem at a tensor on the second GPU, computed on the first, and at an array.
\<close>

theorem handle_backend_roundtrip_witness:
  "handle_backend True returns_input \<lparr>device = Some ''cuda''\<rparr>
      (Tensor \<lparr>t_data = IntData Int64 [1, 2, 3, 4], t_shape = [2, 2], t_device = CUDA 1,
               t_contiguous = False, t_requires_grad = False\<rparr>)
    = Inr (VTensor \<lparr>t_data = FloatData Float32 [Fin 1, Fin 2, Fin 3, Fin 4], t_shape = [2, 2],
               t_device = CUDA 1, t_contiguous = True, t_requires_grad = False\<rparr>)
   \<and> handle_backend True returns_input \<lparr>device = Some ''cuda''\<rparr>
      (ArrayLike \<lparr>a_data = FloatData Float64 [Fin 1, Fin 2, Fin 3, Fin 4], a_shape = [2, 2]\<rparr>)
    = Inr (VArray \<lparr>a_data = FloatData Float64 [Fin 1, Fin 2, Fin 3, Fin 4], a_shape = [2, 2]\<rparr>)"
proof -
  have t: "handle_backend True returns_input \<lparr>device = Some ''cuda''\<rparr>
      (Tensor \<lparr>t_data = IntData Int64 [1, 2, 3, 4], t_shape = [2, 2], t_device = CUDA 1,
               t_contiguous = False, t_requires_grad = False\<rparr>)
    = Inr (VTensor \<lparr>t_data = FloatData Float32 [Fin 1, Fin 2, Fin 3, Fin 4], t_shape = [2, 2],
               t_device = CUDA 1, t_contiguous = True, t_requires_grad = False\<rparr>)"
    by (simp add: eval_defs)
  have a: "handle_backend True returns_input \<lparr>device = Some ''cuda''\<rparr>
      (ArrayLike \<lparr>a_data = FloatData Float64 [Fin 1, Fin 2, Fin 3, Fin 4], a_shape = [2, 2]\<rparr>)
    = Inr (VArray \<lparr>a_data = FloatData Float64 [Fin 1, Fin 2, Fin 3, Fin 4], a_shape = [2, 2]\<rparr>)"
    by (simp add: eval_defs)
  from handle_backend_roundtrip [OF t] handle_backend_roundtrip [OF a] t a
  show ?thesis by simp
qed

section \<open>Element type and contiguity of the output\<close>

text \<open>
  Claim C10. Whenever \<open>to_torch\<close> returns, it returns a tensor of a floating-point type
  that is contiguous, alone or as the first of the three values it yields (the other two,
  the backend's name and the device, are not tensors). An input of an integer type is not
  refused for its type: an integer tensor, and an integer array of a shape
  \<open>check_array\<close> accepts, come back as \<open>float32\<close> tensors, each element the
  \<open>float32\<close> nearest to the integer (the same value up to \<open>2 ^ 24\<close> in magnitude,
  a rounded one beyond).
\<close>

theorem to_torch_float_contiguous:
  "(\<forall>out. to_torch c x d v r = Inr out \<longrightarrow>
      (\<exists>t b dv. is_floating_point (dtype_of (t_data t)) \<and> t_contiguous t \<and>
         out = (if r then VGen [VTensor t, VStr b, dv] else VTensor t) \<and>
         (dv = VStr ''cpu'' \<or> (\<exists>dev. dv = VDevice dev))))
   \<and> (\<forall>k ns. input_data x = IntData k ns \<and>
         (\<forall>a. x = ArrayLike a \<longrightarrow> ndim a = 2 \<and> 1 \<le> a_shape a ! 0 \<and> 1 \<le> a_shape a ! 1) \<longrightarrow>
      (\<exists>t. to_torch c x d v False = Inr (VTensor t) \<and>
           t_data t = FloatData Float32 (map (\<lambda>n. float32_of_real (real_of_int n)) ns)))"
proof (intro conjI allI impI)
  fix out
  assume "to_torch c x d v r = Inr out"
  then obtain x0 b dv where
    c: "to_torch_checks (new_device_of c d) x = Inr (x0, b, dv)" and
    out: "out = (let x' = contiguous (if is_floating_point (dtype_of (t_data x0)) then x0 else float x0)
              in if r then VGen [VTensor x', contiguous_elem b, contiguous_elem dv] else VTensor x')"
    by (auto simp: to_torch_Inr)
  let ?t = "contiguous (if is_floating_point (dtype_of (t_data x0)) then x0 else float x0)"
  have fl: "is_floating_point (dtype_of (t_data ?t))"
    by (cases "t_data x0") (auto simp: contiguous_def float_def)
  have ct: "t_contiguous ?t" by (simp add: contiguous_def)
  from to_torch_checks_Inr [OF c]
  have "(b = VStr ''torch'' \<or> b = VStr ''numpy'') \<and> (dv = VStr ''cpu'' \<or> (\<exists>dev. dv = VDevice dev))"
    by (cases x) auto
  with fl ct out
  show "\<exists>t b dv. is_floating_point (dtype_of (t_data t)) \<and> t_contiguous t \<and>
         out = (if r then VGen [VTensor t, VStr b, dv] else VTensor t) \<and>
         (dv = VStr ''cpu'' \<or> (\<exists>dev. dv = VDevice dev))"
    by (auto simp: Let_def)
next
  fix k ns
  assume a: "input_data x = IntData k ns \<and>
         (\<forall>a. x = ArrayLike a \<longrightarrow> ndim a = 2 \<and> 1 \<le> a_shape a ! 0 \<and> 1 \<le> a_shape a ! 1)"
  show "\<exists>t. to_torch c x d v False = Inr (VTensor t) \<and>
           t_data t = FloatData Float32 (map (\<lambda>n. float32_of_real (real_of_int n)) ns)"
  proof (cases x)
    case (Tensor t)
    with a show ?thesis
      by (auto simp: to_torch_Inr to_torch_checks_def is_complex_def isfinite_def all_true_def
          list_all_iff Let_def contiguous_def float_def to_device_def)
  next
    case (ArrayLike arr)
    with a show ?thesis
      by (auto simp: to_torch_Inr to_torch_checks_def check_array_def iscomplex_def any_true_def
          all_true_def list_all_iff list_ex_iff from_numpy_def copy_def
          Let_def contiguous_def float_def to_device_def)
  qed
qed

text \<open>
  The theorem at a non-contiguous integer tensor, whose last element \<open>2 ^ 24 + 1\<close> is
  rounded by the conversion, and at an integer array.
\<close>

theorem to_torch_float_contiguous_witness:
  "(\<exists>t. to_torch False
      (Tensor \<lparr>t_data = IntData Int64 [1, 2, 3, 16777217], t_shape = [2, 2], t_device = CPU,
               t_contiguous = False, t_requires_grad = False\<rparr>) None True False
      = Inr (VTensor t) \<and> t_data t = FloatData Float32 [Fin 1, Fin 2, Fin 3, Fin 16777216])
   \<and> (\<exists>t b dv. is_floating_point (dtype_of (t_data t)) \<and> t_contiguous t \<and>
        to_torch False
          (ArrayLike \<lparr>a_data = IntData Int32 [3, 4, 5, 6], a_shape = [2, 2]\<rparr>) None True True
        = Inr (VGen [VTensor t, VStr b, dv]))"
proof -
  have r: "to_torch False (ArrayLike \<lparr>a_data = IntData Int32 [3, 4, 5, 6], a_shape = [2, 2]\<rparr>) None True True
    = Inr (VGen [VTensor \<lparr>t_data = FloatData Float32 [Fin 3, Fin 4, Fin 5, Fin 6], t_shape = [2, 2], t_device = CPU,
               t_contiguous = True, t_requires_grad = False\<rparr>, VStr ''numpy'', VStr ''cpu''])"
    by (simp add: eval_defs)
  from
    to_torch_float_contiguous [of False
      "Tensor \<lparr>t_data = IntData Int64 [1, 2, 3, 16777217], t_shape = [2, 2], t_device = CPU,
               t_contiguous = False, t_requires_grad = False\<rparr>" None True False,
      THEN conjunct2, rule_format, of Int64 "[1, 2, 3, 16777217]"]
    to_torch_float_contiguous [of False
      "ArrayLike \<lparr>a_data = IntData Int32 [3, 4, 5, 6], a_shape = [2, 2]\<rparr>" None True True,
      THEN conjunct1, rule_format, OF r]
  show ?thesis by (auto simp: r float32_of_real_numeral float32_of_real_one float32_of_real_tie)
qed

section \<open>Normalization of the kernel transform\<close>

lemma kernel_value_pos: "0 \<le> c \<Longrightarrow> 0 < kernel_value k c"
  by (cases k) simp_all

lemma apply_kernel_square: "is_square n C \<Longrightarrow> is_square n (apply_kernel k C)"
  by (simp add: is_square_def apply_kernel_def list_all_iff)

lemma apply_kernel_positive: "all_nonnegative C \<Longrightarrow> all_positive (apply_kernel k C)"
  by (auto simp: all_nonnegative_def all_positive_def apply_kernel_def list_all_iff kernel_value_pos)

lemma sum_list_pos: "xs \<noteq> [] \<Longrightarrow> \<forall>x \<in> set xs. (0::real) < x \<Longrightarrow> 0 < sum_list xs"
  by (induction xs) (auto intro: add_pos_nonneg sum_list_nonneg less_imp_le)

lemma sum_list_divide: "sum_list (map (\<lambda>x. f x / (c::real)) xs) = sum_list (map f xs) / c"
  by (induction xs) (simp_all add: add_divide_distrib)

lemma map_replicate_const: "\<forall>x \<in> set xs. f x = c \<Longrightarrow> map f xs = replicate (length xs) c"
  by (induction xs) simp_all

lemma normalize_square: "is_square n K \<Longrightarrow> is_square n (normalize_sum ax K)"
  by (cases ax) (auto simp: is_square_def list_all_iff)

lemma row_sum_pos: "0 < n \<Longrightarrow> is_square n K \<Longrightarrow> all_positive K \<Longrightarrow> row \<in> set K \<Longrightarrow> 0 < sum_list row"
  by (rule sum_list_pos) (auto simp: is_square_def all_positive_def list_all_iff)

lemma col_sum_pos:
  assumes "0 < n" "is_square n K" "all_positive K" "j < n"
  shows "0 < sum_list (map (\<lambda>row. row ! j) K)"
proof (rule sum_list_pos)
  from assms show "map (\<lambda>row. row ! j) K \<noteq> []" by (auto simp: is_square_def)
  from assms show "\<forall>x\<in>set (map (\<lambda>row. row ! j) K). 0 < x"
    by (auto simp: is_square_def all_positive_def list_all_iff)
qed

lemma total_sum_pos:
  assumes "0 < n" "is_square n K" "all_positive K"
  shows "0 < total_sum K"
  unfolding total_sum_def sum_dim1_def
proof (rule sum_list_pos)
  from assms show "map sum_list K \<noteq> []" by (auto simp: is_square_def)
  from assms show "\<forall>x\<in>set (map sum_list K). 0 < x"
    by (auto dest: row_sum_pos)
qed

lemma normalize_nonnegative:
  assumes "0 < n" "is_square n K" "all_positive K"
  shows "all_nonnegative (normalize_sum ax K)"
proof (cases ax)
  case Dim0
  have "0 \<le> row ! j / sum_dim0 K ! j" if "row \<in> set K" "j < length row" for row j
  proof -
    from that assms have j: "j < n" and "0 < row ! j"
      by (auto simp: is_square_def all_positive_def list_all_iff)
    moreover from col_sum_pos [OF assms j] j assms have "0 < sum_dim0 K ! j"
      by (simp add: sum_dim0_def is_square_def)
    ultimately show ?thesis by simp
  qed
  with Dim0 show ?thesis by (auto simp: all_nonnegative_def list_all_iff)
next
  case Dim1
  have "0 \<le> x / sum_list row" if "row \<in> set K" "x \<in> set row" for row x
    using that assms row_sum_pos [OF assms that(1)]
    by (auto simp: all_positive_def list_all_iff intro!: divide_nonneg_pos less_imp_le)
  with Dim1 show ?thesis by (auto simp: all_nonnegative_def list_all_iff)
next
  case DimBoth
  have "0 \<le> x / total_sum K" if "row \<in> set K" "x \<in> set row" for row x
    using that assms total_sum_pos [OF assms]
    by (auto simp: all_positive_def list_all_iff intro!: divide_nonneg_pos less_imp_le)
  with DimBoth show ?thesis by (auto simp: all_nonnegative_def list_all_iff)
qed

lemma normalize_dim1_sums:
  assumes "0 < n" "is_square n K" "all_positive K"
  shows "sum_dim1 (normalize_sum Dim1 K) = replicate n 1"
proof -
  have "sum_list (map (\<lambda>x. x / sum_list row) row) = 1" if "row \<in> set K" for row
    using row_sum_pos [OF assms that] sum_list_divide [of "\<lambda>x. x" "sum_list row" row] by simp
  then have "map (\<lambda>row. sum_list (map (\<lambda>x. x / sum_list row) row)) K = replicate (length K) 1"
    by (intro map_replicate_const) simp
  with assms show ?thesis by (simp add: sum_dim1_def is_square_def comp_def)
qed

lemma normalize_dim0_sums:
  assumes "0 < n" "is_square n K" "all_positive K"
  shows "sum_dim0 (normalize_sum Dim0 K) = replicate n 1"
proof -
  have len: "length K = n" using assms by (simp add: is_square_def)
  have "sum_list (map (\<lambda>row. row ! j) (normalize_sum Dim0 K)) = 1" if j: "j < n" for j
  proof -
    let ?s = "sum_list (map (\<lambda>row. row ! j) K)"
    have s: "sum_dim0 K ! j = ?s" using j len by (simp add: sum_dim0_def)
    have "(map (\<lambda>j. row ! j / sum_dim0 K ! j) [0..<length row]) ! j = row ! j / ?s"
      if "row \<in> set K" for row
      using that assms j s by (auto simp: is_square_def list_all_iff)
    then have "map (\<lambda>row. row ! j) (normalize_sum Dim0 K) = map (\<lambda>row. row ! j / ?s) K"
      unfolding normalize_sum.simps map_map comp_def by (intro map_cong refl)
    then have "sum_list (map (\<lambda>row. row ! j) (normalize_sum Dim0 K))
        = sum_list (map (\<lambda>row. row ! j / ?s) K)"
      by (simp only:)
    also have "\<dots> = ?s / ?s"
      by (rule sum_list_divide)
    finally have "sum_list (map (\<lambda>row. row ! j) (normalize_sum Dim0 K)) = ?s / ?s" .
    with col_sum_pos [OF assms j] show ?thesis by simp
  qed
  then have "map (\<lambda>j. sum_list (map (\<lambda>row. row ! j) (normalize_sum Dim0 K))) [0..<n] = replicate (length [0..<n]) 1"
    by (intro map_replicate_const) simp
  with len show ?thesis by (simp add: sum_dim0_def)
qed

lemma normalize_both_sums:
  assumes "0 < n" "is_square n K" "all_positive K"
  shows "total_sum (normalize_sum DimBoth K) = 1"
proof -
  have "total_sum (normalize_sum DimBoth K) = sum_list (map (\<lambda>row. sum_list row / total_sum K) K)"
    by (simp add: total_sum_def sum_dim1_def comp_def sum_list_divide [of "\<lambda>x. x", simplified])
  also have "\<dots> = total_sum K / total_sum K"
    by (simp add: sum_list_divide total_sum_def sum_dim1_def)
  finally show ?thesis using total_sum_pos [OF assms] by simp
qed

text \<open>
  Claim C6. For the cost matrix \<open>C\<close> of a dataset of \<open>n \<ge> 1\<close> points, either kernel and
  each of the three axes, the output \<open>P\<close> of the kernel transform is \<open>n \<times> n\<close>, all its
  entries are nonnegative, and it sums to 1 along the axis: every column for axis 0,
  every row for axis 1, the whole matrix for both. In exact arithmetic the sums are equal
  to 1, hence within any tolerance.
\<close>

theorem kernel_transform_normalized:
  assumes "is_cost_matrix n C" and "0 < n"
  shows "is_square n (transform C k ax)
       \<and> all_nonnegative (transform C k ax)
       \<and> sums_to_one n ax (transform C k ax)"
proof -
  let ?K = "apply_kernel k C"
  from assms have sq: "is_square n ?K" and pos: "all_positive ?K"
    by (simp_all add: is_cost_matrix_def apply_kernel_square apply_kernel_positive)
  have "sums_to_one n ax (normalize_sum ax ?K)"
    using normalize_dim0_sums [OF assms(2) sq pos] normalize_dim1_sums [OF assms(2) sq pos]
      normalize_both_sums [OF assms(2) sq pos]
    by (cases ax) simp_all
  with normalize_square [OF sq] normalize_nonnegative [OF assms(2) sq pos]
  show ?thesis by (simp add: transform_def)
qed

text \<open>
  The theorem at the cost matrix of two points at distance 3, with the Student kernel
  normalized by rows.
\<close>

theorem kernel_transform_normalized_witness:
  "is_cost_matrix 2 [[0, 3], [3, 0]] \<and> (0::nat) < 2
   \<and> is_square 2 (transform [[0, 3], [3, 0]] Student Dim1)
   \<and> all_nonnegative (transform [[0, 3], [3, 0]] Student Dim1)
   \<and> sum_dim1 (transform [[0, 3], [3, 0]] Student Dim1) = [1, 1]
   \<and> transform [[0, 3], [3, 0]] Student Dim1 = [[4/5, 1/5], [1/5, 4/5]]"
proof -
  have c: "is_cost_matrix 2 [[0, 3], [3, 0]]"
    by (simp add: is_cost_matrix_def is_square_def all_nonnegative_def upt_rec numeral_2_eq_2)
  have n: "(0::nat) < 2" by simp
  have t: "transform [[0, 3], [3, 0]] Student Dim1 = [[4/5, 1/5], [1/5, 4/5]]"
    by (simp add: transform_def apply_kernel_def)
  from kernel_transform_normalized [OF c n, of Student Dim1] c t
  show ?thesis by (simp add: numeral_2_eq_2)
qed

end
